theory Spec2Isabelle
  imports Complex_Main "HOL-Library.Sublist"
begin

section \<open>Facial symmetry analyzer: the scoring pipeline of main.py\<close>

text \<open>
  The embedding follows \<^verbatim>\<open>src/main.py\<close>. Python floats are idealised as the
  real numbers they denote: every arithmetic operation is exact, so the rounding error of
  IEEE doubles is outside the model. The model and the code agree on bounds, bands and
  clamps; they can differ in the last digit of the returned score where the exact unrounded
  score is a decimal tie (such as 0.745), since the double the code rounds lies just beside
  the tie. Which of the two neighbouring two-decimal values the code returns there is a
  fact of double arithmetic and is not stated here. Python strings are byte strings in UTF-8, as the
  source file stores them. Exceptions are values of the type \<open>exn\<close>; a function that can
  raise returns \<open>exn + 'a\<close> with \<open>Inl\<close> for the exception. Calls of \<^verbatim>\<open>logger.info\<close>
  have no effect on any returned value and are left out.
\<close>

subsection \<open>Data\<close>

datatype exn =
    HTTPException nat string
  | AttributeError
  | IndexError
  | ZeroDivisionError
  | LibraryError string

type_synonym point = "real \<times> real"

record landmark =
  x :: real
  y :: real

record image =
  width :: nat
  height :: nat

record upload_file =
  content_type :: "string option"
  contents :: string

record response =
  symmetry_score :: real
  symmetry_level :: string
  message :: string

text \<open>
  The collaborators that are not part of the repository: the image decoder
  (\<^verbatim>\<open>Image.open(io.BytesIO(contents)).convert("RGB")\<close>), the face mesh
  (\<^verbatim>\<open>face_mesh.process(image_np)\<close>, read through \<^verbatim>\<open>multi_face_landmarks\<close>, which is
  \<^verbatim>\<open>None\<close> or a list of landmark lists), \<^verbatim>\<open>str(e)\<close> of an exception and the
  format \<^verbatim>\<open>{score:.2f}\<close>.
\<close>

record env =
  image_open :: "string \<Rightarrow> exn + image"
  face_mesh_process :: "image \<Rightarrow> exn + landmark list list option"
  exn_str :: "exn \<Rightarrow> string"
  format_2f :: "real \<Rightarrow> string"

subsection \<open>Python primitives\<close>

definition py_truediv :: "real \<Rightarrow> real \<Rightarrow> exn + real" where
  "py_truediv a b = (if b = 0 then Inl ZeroDivisionError else Inr (a / b))"

definition py_getitem :: "'a list \<Rightarrow> nat \<Rightarrow> exn + 'a" where
  "py_getitem xs i = (if i < length xs then Inr (xs ! i) else Inl IndexError)"

text \<open>Sequencing: the first exception raised ends the computation.\<close>

definition bind_exn :: "exn + 'a \<Rightarrow> ('a \<Rightarrow> exn + 'b) \<Rightarrow> exn + 'b" where
  "bind_exn m f = (case m of Inl e \<Rightarrow> Inl e | Inr v \<Rightarrow> f v)"

text \<open>
  \<^verbatim>\<open>round(v, n)\<close> rounds to the nearest multiple of \<open>10 ^ -n\<close> and, of two
  equally near ones, to the even one.
\<close>

definition py_round :: "real \<Rightarrow> nat \<Rightarrow> real" where
  "py_round v n =
     (let s = 10 ^ n;
          t = v * s;
          f = \<lfloor>t\<rfloor>;
          r = t - of_int f
      in (if r < 1 / 2 then of_int f
          else if 1 / 2 < r then of_int (f + 1)
          else if even f then of_int f
          else of_int (f + 1)) / s)"

definition startswith :: "string \<Rightarrow> string \<Rightarrow> bool" where
  "startswith s p = prefix p s"

subsection \<open>Constants and helpers\<close>

definition GOLDEN_RATIO :: real where
  "GOLDEN_RATIO = 1618 / 1000"

definition calculate_distance :: "point \<Rightarrow> point \<Rightarrow> real" where
  "calculate_distance point1 point2 =
     sqrt ((fst point2 - fst point1) ^ 2 + (snd point2 - snd point1) ^ 2)"

definition divine_symmetry :: string where
  "divine_symmetry = ''Divine Symmetry '' @
     [CHR 0xC3, CHR 0xA2, CHR 0xC5, CHR 0x93, CHR 0xC2, CHR 0xA8]"

definition elegant_harmony :: string where
  "elegant_harmony = ''Elegant Harmony '' @
     [CHR 0xC3, CHR 0xB0, CHR 0xC5, CHR 0xB8, CHR 0xE2, CHR 0x80, CHR 0x99, CHR 0xC2, CHR 0xAB]"

definition refined_balance :: string where
  "refined_balance = ''Refined Balance '' @
     [CHR 0xC3, CHR 0xB0, CHR 0xC5, CHR 0xB8, CHR 0xC5, CHR 0x92, CHR 0xC2, CHR 0xBF]"

definition natural_allure :: string where
  "natural_allure = ''Natural Allure '' @
     [CHR 0xC3, CHR 0xB0, CHR 0xC5, CHR 0xB8, CHR 0xC5, CHR 0x92, CHR 0xC2, CHR 0xB8]"

definition authentic_beauty :: string where
  "authentic_beauty = ''Authentic Beauty '' @
     [CHR 0xC3, CHR 0xB0, CHR 0xC5, CHR 0xB8, CHR 0xC5, CHR 0x92, CHR 0xE2, CHR 0x84, CHR 0xA2]"

definition get_symmetry_level :: "real \<Rightarrow> string" where
  "get_symmetry_level score =
     (let score_percent = score * 100 in
      if 90 \<le> score_percent \<and> score_percent \<le> 100 then divine_symmetry
      else if 75 \<le> score_percent \<and> score_percent < 90 then elegant_harmony
      else if 60 \<le> score_percent \<and> score_percent < 75 then refined_balance
      else if 40 \<le> score_percent \<and> score_percent < 60 then natural_allure
      else authentic_beauty)"

subsection \<open>compute_symmetry_score\<close>

text \<open>Lines 64 to 74: a landmark read by index and scaled to pixel coordinates.\<close>

definition pixel_point :: "image \<Rightarrow> landmark list \<Rightarrow> nat \<Rightarrow> exn + point" where
  "pixel_point img landmarks i =
     (case py_getitem landmarks i of
        Inl e \<Rightarrow> Inl e
      | Inr l \<Rightarrow> Inr (x l * real (width img), y l * real (height img)))"

record points =
  left_eye :: point
  right_eye :: point
  nose_tip :: point
  nose_left :: point
  nose_right :: point
  mouth_left :: point
  mouth_right :: point
  chin :: point
  forehead :: point
  left_face_edge :: point
  right_face_edge :: point

definition extract_points :: "image \<Rightarrow> landmark list \<Rightarrow> exn + points" where
  "extract_points img landmarks =
     bind_exn (pixel_point img landmarks 33) (\<lambda>p_left_eye.
     bind_exn (pixel_point img landmarks 263) (\<lambda>p_right_eye.
     bind_exn (pixel_point img landmarks 1) (\<lambda>p_nose_tip.
     bind_exn (pixel_point img landmarks 234) (\<lambda>p_nose_left.
     bind_exn (pixel_point img landmarks 454) (\<lambda>p_nose_right.
     bind_exn (pixel_point img landmarks 61) (\<lambda>p_mouth_left.
     bind_exn (pixel_point img landmarks 291) (\<lambda>p_mouth_right.
     bind_exn (pixel_point img landmarks 152) (\<lambda>p_chin.
     bind_exn (pixel_point img landmarks 10) (\<lambda>p_forehead.
     bind_exn (pixel_point img landmarks 234) (\<lambda>p_left_face_edge.
     bind_exn (pixel_point img landmarks 454) (\<lambda>p_right_face_edge.
     Inr \<lparr>left_eye = p_left_eye, right_eye = p_right_eye, nose_tip = p_nose_tip,
          nose_left = p_nose_left, nose_right = p_nose_right,
          mouth_left = p_mouth_left, mouth_right = p_mouth_right,
          chin = p_chin, forehead = p_forehead,
          left_face_edge = p_left_face_edge,
          right_face_edge = p_right_face_edge\<rparr>)))))))))))"

text \<open>Lines 77 to 84: the eight distances.\<close>

record distances =
  eye_distance :: real
  nose_width :: real
  mouth_width :: real
  face_width :: real
  forehead_to_eyes :: real
  eyes_to_chin :: real
  eye_to_nose :: real
  nose_to_chin :: real

definition key_distances :: "points \<Rightarrow> distances" where
  "key_distances p =
     \<lparr>eye_distance = calculate_distance (left_eye p) (right_eye p),
      nose_width = calculate_distance (nose_left p) (nose_right p),
      mouth_width = calculate_distance (mouth_left p) (mouth_right p),
      face_width = calculate_distance (left_face_edge p) (right_face_edge p),
      forehead_to_eyes = calculate_distance (forehead p) (left_eye p),
      eyes_to_chin = calculate_distance (left_eye p) (chin p),
      eye_to_nose = calculate_distance (left_eye p) (nose_tip p),
      nose_to_chin = calculate_distance (nose_tip p) (chin p)\<rparr>"

text \<open>
  Lines 92 to 97: \<^verbatim>\<open>num / den if den != 0 else 1.0\<close>, with the division as Python
  has it, raising on a zero divisor.
\<close>

definition guarded_ratio :: "real \<Rightarrow> real \<Rightarrow> exn + real" where
  "guarded_ratio num den = (if den \<noteq> 0 then py_truediv num den else Inr 1)"

definition calc_ratios :: "distances \<Rightarrow> exn + real list" where
  "calc_ratios d =
     bind_exn (guarded_ratio (face_width d) (eye_distance d)) (\<lambda>r0.
     bind_exn (guarded_ratio (forehead_to_eyes d) (eyes_to_chin d)) (\<lambda>r1.
     bind_exn (guarded_ratio (nose_width d) (mouth_width d)) (\<lambda>r2.
     bind_exn (guarded_ratio (eye_to_nose d) (nose_to_chin d)) (\<lambda>r3.
     Inr [r0, r1, r2, r3]))))"

text \<open>Lines 105 to 109: deviations, their average, the score before rounding.\<close>

definition ratio_deviation :: "real \<Rightarrow> real" where
  "ratio_deviation ratio = min (\<bar>ratio - GOLDEN_RATIO\<bar> / GOLDEN_RATIO) 1"

definition ratio_deviations :: "real list \<Rightarrow> real list" where
  "ratio_deviations ratios = map ratio_deviation ratios"

definition avg_deviation :: "real list \<Rightarrow> exn + real" where
  "avg_deviation devs = py_truediv (sum_list devs) (real (length devs))"

definition scaled_score :: "real \<Rightarrow> real" where
  "scaled_score avg = max 0 (1 - avg * (3 / 10))"

definition unrounded_score :: "real list \<Rightarrow> exn + real" where
  "unrounded_score ratios =
     (case avg_deviation (ratio_deviations ratios) of
        Inl e \<Rightarrow> Inl e
      | Inr avg \<Rightarrow> Inr (scaled_score avg))"

definition score_of_ratios :: "real list \<Rightarrow> exn + real" where
  "score_of_ratios ratios =
     (case unrounded_score ratios of
        Inl e \<Rightarrow> Inl e
      | Inr s \<Rightarrow> Inr (py_round s 2))"

definition landmark_ratios :: "image \<Rightarrow> landmark list \<Rightarrow> exn + real list" where
  "landmark_ratios img landmarks =
     (case extract_points img landmarks of
        Inl e \<Rightarrow> Inl e
      | Inr p \<Rightarrow> calc_ratios (key_distances p))"

definition compute_symmetry_score :: "env \<Rightarrow> image \<Rightarrow> exn + real" where
  "compute_symmetry_score E img =
     (case face_mesh_process E img of
        Inl e \<Rightarrow> Inl e
      | Inr None \<Rightarrow> Inl (HTTPException 400 ''No face detected in the image'')
      | Inr (Some []) \<Rightarrow> Inl (HTTPException 400 ''No face detected in the image'')
      | Inr (Some (landmarks # others)) \<Rightarrow>
          (case landmark_ratios img landmarks of
             Inl e \<Rightarrow> Inl e
           | Inr ratios \<Rightarrow> score_of_ratios ratios))"

subsection \<open>POST /analyze\<close>

definition process_upload :: "env \<Rightarrow> upload_file \<Rightarrow> exn + response" where
  "process_upload E file =
     (case image_open E (contents file) of
        Inl e \<Rightarrow> Inl e
      | Inr img \<Rightarrow>
          (case compute_symmetry_score E img of
             Inl e \<Rightarrow> Inl e
           | Inr score \<Rightarrow>
               (let level = get_symmetry_level score in
                Inr \<lparr>symmetry_score = score,
                     symmetry_level = level,
                     message = ''Your face has a symmetry score of '' @ format_2f E score
                       @ '' (closer to 1 is more symmetrical), earning the ''
                       @ [CHR 0x27] @ level @ [CHR 0x27]
                       @ '' level! This is for fun and does not reflect beauty or worth!''\<rparr>)))"

text \<open>
  \<^verbatim>\<open>analyze_image\<close>: the content type test is outside the \<^verbatim>\<open>try\<close>; everything
  raised inside it, the scorer's own \<^verbatim>\<open>HTTPException\<close> too, reaches
  \<^verbatim>\<open>except Exception\<close> and is raised again with status 500. A missing content type
  is \<^verbatim>\<open>None\<close>, on which \<^verbatim>\<open>startswith\<close> raises \<^verbatim>\<open>AttributeError\<close>.
\<close>

definition analyze_image :: "env \<Rightarrow> upload_file \<Rightarrow> exn + response" where
  "analyze_image E file =
     (case content_type file of
        None \<Rightarrow> Inl AttributeError
      | Some ct \<Rightarrow>
          if \<not> startswith ct ''image/'' then Inl (HTTPException 400 ''File must be an image'')
          else (case process_upload E file of
                  Inl e \<Rightarrow> Inl (HTTPException 500 (''Error processing image: '' @ exn_str E e))
                | Inr r \<Rightarrow> Inr r))"

section \<open>Properties\<close>

subsection \<open>Helper facts\<close>

lemma golden_pos: "0 < GOLDEN_RATIO"
  by (simp add: GOLDEN_RATIO_def)

lemma ratio_deviation_bounds: "0 \<le> ratio_deviation r \<and> ratio_deviation r \<le> 1"
  using golden_pos by (simp add: ratio_deviation_def)

lemma py_round2_unfold:
  "py_round v 2 =
     (if v * 100 - of_int \<lfloor>v * 100\<rfloor> < 1 / 2 then of_int \<lfloor>v * 100\<rfloor>
      else if 1 / 2 < v * 100 - of_int \<lfloor>v * 100\<rfloor> then of_int (\<lfloor>v * 100\<rfloor> + 1)
      else if even \<lfloor>v * 100\<rfloor> then of_int \<lfloor>v * 100\<rfloor>
      else of_int (\<lfloor>v * 100\<rfloor> + 1)) / 100"
  by (simp add: py_round_def Let_def)

lemma py_round2_ge:
  assumes "of_int k / 100 \<le> v"
  shows "of_int k / 100 \<le> py_round v 2"
proof -
  have "of_int k \<le> v * 100" using assms by simp
  then have "k \<le> \<lfloor>v * 100\<rfloor>" by (simp add: le_floor_iff)
  then have "(of_int k :: real) \<le> of_int \<lfloor>v * 100\<rfloor>" by simp
  then show ?thesis unfolding py_round2_unfold by (simp add: divide_right_mono)
qed

lemma py_round2_le:
  assumes "v \<le> of_int k / 100"
  shows "py_round v 2 \<le> of_int k / 100"
proof -
  have le: "v * 100 \<le> of_int k" using assms by simp
  have fl: "of_int \<lfloor>v * 100\<rfloor> \<le> v * 100" by simp
  have f0: "(of_int \<lfloor>v * 100\<rfloor> :: real) \<le> of_int k" using le fl by (rule order_trans[rotated])
  show ?thesis
  proof (cases "v * 100 - of_int \<lfloor>v * 100\<rfloor> < 1 / 2")
    case True
    then have "py_round v 2 = of_int \<lfloor>v * 100\<rfloor> / 100" by (simp add: py_round2_unfold)
    then show ?thesis using f0 by (simp only: divide_right_mono)
  next
    case False
    then have "of_int \<lfloor>v * 100\<rfloor> < v * 100" by simp
    then have "(of_int \<lfloor>v * 100\<rfloor> :: real) < of_int k" using le by linarith
    then have "\<lfloor>v * 100\<rfloor> < k" by simp
    then have "\<lfloor>v * 100\<rfloor> + 1 \<le> k" by simp
    then have f1: "(of_int (\<lfloor>v * 100\<rfloor> + 1) :: real) \<le> of_int k" by (simp only: of_int_le_iff)
    have "py_round v 2 = of_int \<lfloor>v * 100\<rfloor> / 100 \<or> py_round v 2 = of_int (\<lfloor>v * 100\<rfloor> + 1) / 100"
      by (simp add: py_round2_unfold)
    then show ?thesis
    proof
      assume e: "py_round v 2 = of_int \<lfloor>v * 100\<rfloor> / 100"
      show ?thesis unfolding e using f0 by (simp only: divide_right_mono)
    next
      assume e: "py_round v 2 = of_int (\<lfloor>v * 100\<rfloor> + 1) / 100"
      show ?thesis unfolding e using f1 by (simp only: divide_right_mono)
    qed
  qed
qed

lemma py_round_70: "py_round (7 / 10) 2 = 7 / 10"
  by (simp add: py_round2_unfold)

lemma avg_deviation4:
  "avg_deviation [a, b, c, d] = Inr ((a + b + c + d) / 4)"
  by (simp add: avg_deviation_def py_truediv_def)

lemma unrounded_score4:
  "unrounded_score [r0, r1, r2, r3] =
     Inr (scaled_score ((ratio_deviation r0 + ratio_deviation r1 + ratio_deviation r2 + ratio_deviation r3) / 4))"
  by (simp add: unrounded_score_def ratio_deviations_def avg_deviation4)

lemma score_of_ratios4:
  "score_of_ratios [r0, r1, r2, r3] =
     Inr (py_round (scaled_score ((ratio_deviation r0 + ratio_deviation r1 + ratio_deviation r2 + ratio_deviation r3) / 4)) 2)"
  by (simp add: score_of_ratios_def unrounded_score4)

lemma scaled_score_range:
  assumes "0 \<le> a" "a \<le> 1"
  shows "scaled_score a = 1 - a * (3 / 10)" "7 / 10 \<le> scaled_score a" "scaled_score a \<le> 1"
  using assms by (simp_all add: scaled_score_def)

lemma level_prefixes:
  "prefix ''Divine Symmetry'' divine_symmetry"
  "prefix ''Elegant Harmony'' elegant_harmony"
  "prefix ''Refined Balance'' refined_balance"
  "prefix ''Natural Allure'' natural_allure"
  "prefix ''Authentic Beauty'' authentic_beauty"
  by (simp_all add: divine_symmetry_def elegant_harmony_def refined_balance_def
      natural_allure_def authentic_beauty_def)

lemma level_distinct:
  "natural_allure \<noteq> divine_symmetry" "natural_allure \<noteq> elegant_harmony"
  "natural_allure \<noteq> refined_balance" "authentic_beauty \<noteq> divine_symmetry"
  "authentic_beauty \<noteq> elegant_harmony" "authentic_beauty \<noteq> refined_balance"
  by (simp_all add: divine_symmetry_def elegant_harmony_def refined_balance_def
      natural_allure_def authentic_beauty_def)

lemma level_of_percent:
  "90 \<le> s * 100 \<Longrightarrow> s * 100 \<le> 100 \<Longrightarrow> get_symmetry_level s = divine_symmetry"
  "75 \<le> s * 100 \<Longrightarrow> s * 100 < 90 \<Longrightarrow> get_symmetry_level s = elegant_harmony"
  "60 \<le> s * 100 \<Longrightarrow> s * 100 < 75 \<Longrightarrow> get_symmetry_level s = refined_balance"
  "40 \<le> s * 100 \<Longrightarrow> s * 100 < 60 \<Longrightarrow> get_symmetry_level s = natural_allure"
  "0 \<le> s * 100 \<Longrightarrow> s * 100 < 40 \<Longrightarrow> get_symmetry_level s = authentic_beauty"
  by (simp_all add: get_symmetry_level_def Let_def)

lemma guarded_ratio_total:
  "guarded_ratio n d = Inr (if d \<noteq> 0 then n / d else 1)"
  by (simp add: guarded_ratio_def py_truediv_def)

lemma calc_ratios_total:
  "calc_ratios d =
     Inr [if eye_distance d \<noteq> 0 then face_width d / eye_distance d else 1,
          if eyes_to_chin d \<noteq> 0 then forehead_to_eyes d / eyes_to_chin d else 1,
          if mouth_width d \<noteq> 0 then nose_width d / mouth_width d else 1,
          if nose_to_chin d \<noteq> 0 then eye_to_nose d / nose_to_chin d else 1]"
  by (simp only: calc_ratios_def guarded_ratio_total bind_exn_def sum.case)

lemma pixel_point_cases:
  "pixel_point img lms i =
     (if i < length lms
      then Inr (x (lms ! i) * real (width img), y (lms ! i) * real (height img))
      else Inl IndexError)"
  by (simp add: pixel_point_def py_getitem_def)

lemma pixel_point_not_zerodiv: "pixel_point img lms i \<noteq> Inl ZeroDivisionError"
  by (simp add: pixel_point_cases)

lemma bind_exn_not_zerodiv:
  assumes "m \<noteq> Inl ZeroDivisionError" "\<And>v. f v \<noteq> Inl ZeroDivisionError"
  shows "bind_exn m f \<noteq> Inl ZeroDivisionError"
  using assms by (cases m) (simp_all add: bind_exn_def)

lemma extract_points_not_zerodiv: "extract_points img lms \<noteq> Inl ZeroDivisionError"
  unfolding extract_points_def
  by (intro bind_exn_not_zerodiv pixel_point_not_zerodiv) simp

lemma extract_points_ok:
  assumes "454 < length lms"
  shows "extract_points img lms =
    Inr \<lparr>left_eye = (x (lms ! 33) * real (width img), y (lms ! 33) * real (height img)),
         right_eye = (x (lms ! 263) * real (width img), y (lms ! 263) * real (height img)),
         nose_tip = (x (lms ! 1) * real (width img), y (lms ! 1) * real (height img)),
         nose_left = (x (lms ! 234) * real (width img), y (lms ! 234) * real (height img)),
         nose_right = (x (lms ! 454) * real (width img), y (lms ! 454) * real (height img)),
         mouth_left = (x (lms ! 61) * real (width img), y (lms ! 61) * real (height img)),
         mouth_right = (x (lms ! 291) * real (width img), y (lms ! 291) * real (height img)),
         chin = (x (lms ! 152) * real (width img), y (lms ! 152) * real (height img)),
         forehead = (x (lms ! 10) * real (width img), y (lms ! 10) * real (height img)),
         left_face_edge = (x (lms ! 234) * real (width img), y (lms ! 234) * real (height img)),
         right_face_edge = (x (lms ! 454) * real (width img), y (lms ! 454) * real (height img))\<rparr>"
  using assms by (simp add: extract_points_def pixel_point_cases bind_exn_def)

lemma landmark_ratios_ok:
  assumes "454 < length lms"
  shows "\<exists>r0 r1 r2 r3. landmark_ratios img lms = Inr [r0, r1, r2, r3]"
  by (simp add: landmark_ratios_def extract_points_ok[OF assms] calc_ratios_total)

lemma level_top_three:
  assumes "70 \<le> s * 100" "s * 100 \<le> 100"
  shows "get_symmetry_level s \<in> {divine_symmetry, elegant_harmony, refined_balance}"
  using assms by (simp add: get_symmetry_level_def Let_def)

subsection \<open>The claims\<close>

text \<open>
  Claim C1, as the code has it. An upload whose content type starts with \<^verbatim>\<open>image/\<close>, that
  decodes, and in which the face mesh finds no face: \<^verbatim>\<open>compute_symmetry_score\<close> raises
  the \<^verbatim>\<open>HTTPException\<close> with status 400 and detail "No face detected in the image", but
  the raise is inside the \<^verbatim>\<open>try\<close> of \<^verbatim>\<open>analyze_image\<close>, whose \<^verbatim>\<open>except Exception\<close>
  catches it; the request fails with status 500 and the detail "Error processing image: "
  followed by the text of the caught exception, not with status 400.
\<close>

theorem no_face_gives_500:
  assumes "content_type file = Some ct" "prefix ''image/'' ct"
    "image_open E (contents file) = Inr img" "face_mesh_process E img = Inr None"
  shows "compute_symmetry_score E img = Inl (HTTPException 400 ''No face detected in the image'') \<and>
         analyze_image E file =
           Inl (HTTPException 500 (''Error processing image: '' @
                  exn_str E (HTTPException 400 ''No face detected in the image''))) \<and>
         analyze_image E file \<noteq> Inl (HTTPException 400 ''No face detected in the image'')"
  using assms
  by (simp add: analyze_image_def startswith_def process_upload_def compute_symmetry_score_def)

theorem no_face_gives_500_witness:
  "analyze_image
      \<lparr>image_open = (\<lambda>b. Inr \<lparr>width = 640, height = 480\<rparr>),
       face_mesh_process = (\<lambda>i. Inr None),
       exn_str = (\<lambda>e. case e of HTTPException c d \<Rightarrow> d | _ \<Rightarrow> []), format_2f = (\<lambda>r. [])\<rparr>
      \<lparr>content_type = Some ''image/png'', contents = []\<rparr>
    = Inl (HTTPException 500 ''Error processing image: No face detected in the image'')"
proof -
  have h2: "prefix ''image/'' ''image/png''" by simp
  show ?thesis
    using no_face_gives_500 [of "\<lparr>content_type = Some ''image/png'', contents = []\<rparr>" "''image/png''"
      "\<lparr>image_open = (\<lambda>b. Inr \<lparr>width = 640, height = 480\<rparr>),
       face_mesh_process = (\<lambda>i. Inr None),
       exn_str = (\<lambda>e. case e of HTTPException c d \<Rightarrow> d | _ \<Rightarrow> []), format_2f = (\<lambda>r. [])\<rparr>"
      "\<lparr>width = 640, height = 480\<rparr>"] h2
    by simp
qed

text \<open>
  Claim C3. With \<open>score * 100\<close> in [90,100] the level starts with "Divine Symmetry", in
  [75,90) with "Elegant Harmony", in [60,75) with "Refined Balance", in [40,60) with
  "Natural Allure", in [0,40) with "Authentic Beauty"; what follows the name is the
  decorative suffix. At 90 the level is "Divine Symmetry", at 89.999 "Elegant Harmony",
  at 40 "Natural Allure", at 39.999 "Authentic Beauty".
\<close>

theorem level_bands:
  "(90 \<le> score * 100 \<and> score * 100 \<le> 100 \<longrightarrow> prefix ''Divine Symmetry'' (get_symmetry_level score)) \<and>
   (75 \<le> score * 100 \<and> score * 100 < 90 \<longrightarrow> prefix ''Elegant Harmony'' (get_symmetry_level score)) \<and>
   (60 \<le> score * 100 \<and> score * 100 < 75 \<longrightarrow> prefix ''Refined Balance'' (get_symmetry_level score)) \<and>
   (40 \<le> score * 100 \<and> score * 100 < 60 \<longrightarrow> prefix ''Natural Allure'' (get_symmetry_level score)) \<and>
   (0 \<le> score * 100 \<and> score * 100 < 40 \<longrightarrow> prefix ''Authentic Beauty'' (get_symmetry_level score)) \<and>
   (score * 100 = 90 \<longrightarrow> prefix ''Divine Symmetry'' (get_symmetry_level score)) \<and>
   (score * 100 = 89999 / 1000 \<longrightarrow> prefix ''Elegant Harmony'' (get_symmetry_level score)) \<and>
   (score * 100 = 40 \<longrightarrow> prefix ''Natural Allure'' (get_symmetry_level score)) \<and>
   (score * 100 = 39999 / 1000 \<longrightarrow> prefix ''Authentic Beauty'' (get_symmetry_level score))"
proof -
  have a: "score * 100 = 89999 / 1000 \<Longrightarrow> 75 \<le> score * 100 \<and> score * 100 < 90" by simp
  have b: "score * 100 = 39999 / 1000 \<Longrightarrow> 0 \<le> score * 100 \<and> score * 100 < 40" by simp
  show ?thesis
    using a b by (auto simp only: level_of_percent level_prefixes)
qed

theorem level_bands_witness:
  "prefix ''Divine Symmetry'' (get_symmetry_level (95 / 100)) \<and>
   prefix ''Elegant Harmony'' (get_symmetry_level (80 / 100)) \<and>
   prefix ''Refined Balance'' (get_symmetry_level (60 / 100)) \<and>
   prefix ''Natural Allure'' (get_symmetry_level (59 / 100)) \<and>
   prefix ''Authentic Beauty'' (get_symmetry_level 0) \<and>
   prefix ''Divine Symmetry'' (get_symmetry_level (90 / 100)) \<and>
   prefix ''Elegant Harmony'' (get_symmetry_level (89999 / 100000)) \<and>
   prefix ''Natural Allure'' (get_symmetry_level (40 / 100)) \<and>
   prefix ''Authentic Beauty'' (get_symmetry_level (39999 / 100000))"
  using level_bands [of "95 / 100"] level_bands [of "80 / 100"] level_bands [of "60 / 100"]
    level_bands [of "59 / 100"] level_bands [of 0] level_bands [of "90 / 100"]
    level_bands [of "89999 / 100000"] level_bands [of "40 / 100"]
    level_bands [of "39999 / 100000"]
  by simp

text \<open>
  Claim C4. The four ratios are computed without an exception for all eight distances:
  the result is a list of four values, a ratio whose denominator is exactly 0 is 1, and
  no landmark list makes the ratio computation raise \<^verbatim>\<open>ZeroDivisionError\<close>.
\<close>

theorem ratios_never_raise:
  "(\<exists>r0 r1 r2 r3. calc_ratios d = Inr [r0, r1, r2, r3] \<and>
      (eye_distance d = 0 \<longrightarrow> r0 = 1) \<and> (eyes_to_chin d = 0 \<longrightarrow> r1 = 1) \<and>
      (mouth_width d = 0 \<longrightarrow> r2 = 1) \<and> (nose_to_chin d = 0 \<longrightarrow> r3 = 1)) \<and>
   landmark_ratios img landmarks \<noteq> Inl ZeroDivisionError"
proof -
  have "landmark_ratios img landmarks \<noteq> Inl ZeroDivisionError"
    using extract_points_not_zerodiv[of img landmarks]
    by (cases "extract_points img landmarks") (simp_all add: landmark_ratios_def calc_ratios_total)
  then show ?thesis by (simp add: calc_ratios_total)
qed

theorem ratios_never_raise_witness:
  "calc_ratios \<lparr>eye_distance = 0, nose_width = 3, mouth_width = 0, face_width = 3,
                forehead_to_eyes = 2, eyes_to_chin = 0, eye_to_nose = 1, nose_to_chin = 0\<rparr>
     = Inr [1, 1, 1, 1] \<and>
   calc_ratios \<lparr>eye_distance = 2, nose_width = 3, mouth_width = 0, face_width = 3,
                forehead_to_eyes = 2, eyes_to_chin = 4, eye_to_nose = 1, nose_to_chin = 1\<rparr>
     = Inr [3 / 2, 1 / 2, 1, 1]"
  using ratios_never_raise [of "\<lparr>eye_distance = 0, nose_width = 3, mouth_width = 0, face_width = 3,
                forehead_to_eyes = 2, eyes_to_chin = 0, eye_to_nose = 1, nose_to_chin = 0\<rparr>"]
    ratios_never_raise [of "\<lparr>eye_distance = 2, nose_width = 3, mouth_width = 0, face_width = 3,
                forehead_to_eyes = 2, eyes_to_chin = 4, eye_to_nose = 1, nose_to_chin = 1\<rparr>"]
  by (auto simp add: calc_ratios_def guarded_ratio_def py_truediv_def bind_exn_def)

text \<open>
  Claim C5. The deviation of a ratio \<open>r\<close> is \<open>min (\<bar>r - 1.618\<bar> / 1.618) 1\<close> and lies
  between 0 and 1; the deviations of four ratios are these values, each between 0 and 1.
\<close>

theorem deviation_clamped:
  "ratio_deviation r = min (\<bar>r - 1618 / 1000\<bar> / (1618 / 1000)) 1 \<and>
   0 \<le> ratio_deviation r \<and> ratio_deviation r \<le> 1 \<and>
   ratio_deviations [r0, r1, r2, r3] =
     [min (\<bar>r0 - 1618 / 1000\<bar> / (1618 / 1000)) 1, min (\<bar>r1 - 1618 / 1000\<bar> / (1618 / 1000)) 1,
      min (\<bar>r2 - 1618 / 1000\<bar> / (1618 / 1000)) 1, min (\<bar>r3 - 1618 / 1000\<bar> / (1618 / 1000)) 1] \<and>
   list_all (\<lambda>d. 0 \<le> d \<and> d \<le> 1) (ratio_deviations [r0, r1, r2, r3])"
  using ratio_deviation_bounds
  by (simp add: ratio_deviations_def) (simp add: ratio_deviation_def GOLDEN_RATIO_def)

text \<open>
  Claim C6. When each of the four ratios differs from 1.618 by at least 1.618, the score
  is 0.70 and the level of that score is "Refined Balance".
\<close>

theorem full_clamp_score:
  assumes "1618 / 1000 \<le> \<bar>r0 - 1618 / 1000\<bar>" "1618 / 1000 \<le> \<bar>r1 - 1618 / 1000\<bar>"
    "1618 / 1000 \<le> \<bar>r2 - 1618 / 1000\<bar>" "1618 / 1000 \<le> \<bar>r3 - 1618 / 1000\<bar>"
  shows "score_of_ratios [r0, r1, r2, r3] = Inr (70 / 100) \<and>
         prefix ''Refined Balance'' (get_symmetry_level (70 / 100))"
proof -
  have d: "ratio_deviation r = 1" if "1618 / 1000 \<le> \<bar>r - 1618 / 1000\<bar>" for r
    using that by (simp add: ratio_deviation_def GOLDEN_RATIO_def min_def)
  have "score_of_ratios [r0, r1, r2, r3] = Inr (py_round (7 / 10) 2)"
    by (simp add: score_of_ratios4 d[OF assms(1)] d[OF assms(2)] d[OF assms(3)] d[OF assms(4)] scaled_score_def)
  moreover have "get_symmetry_level (70 / 100) = refined_balance"
    by (rule level_of_percent) simp_all
  ultimately show ?thesis by (simp add: py_round_70 level_prefixes)
qed

theorem full_clamp_score_witness:
  "score_of_ratios [4, 5, 0, 10] = Inr (70 / 100) \<and>
   prefix ''Refined Balance'' (get_symmetry_level (70 / 100))"
  using full_clamp_score [of 4 5 0 10] by simp

text \<open>
  Claim C7, as the code has it. The test \<^verbatim>\<open>file.content_type.startswith("image/")\<close> is
  outside the \<^verbatim>\<open>try\<close>. An upload whose content type is a string that does not start with
  \<^verbatim>\<open>image/\<close> fails with status 400 and the detail "File must be an image". An upload
  with no content type has \<^verbatim>\<open>content_type = None\<close>, which does not start with
  \<^verbatim>\<open>image/\<close> either: there \<^verbatim>\<open>startswith\<close> raises \<^verbatim>\<open>AttributeError\<close>, no handler of
  \<^verbatim>\<open>analyze_image\<close> catches it, and the request does not fail with the status 400 of the
  sibling path.
\<close>

theorem content_type_gate:
  "(content_type file = None \<longrightarrow>
      analyze_image E file = Inl AttributeError \<and>
      analyze_image E file \<noteq> Inl (HTTPException 400 ''File must be an image'')) \<and>
   (\<forall>ct. content_type file = Some ct \<and> \<not> prefix ''image/'' ct \<longrightarrow>
      analyze_image E file = Inl (HTTPException 400 ''File must be an image''))"
  by (simp add: analyze_image_def startswith_def)

theorem content_type_gate_witness:
  "analyze_image
      \<lparr>image_open = (\<lambda>b. Inr \<lparr>width = 640, height = 480\<rparr>),
       face_mesh_process = (\<lambda>i. Inr None),
       exn_str = (\<lambda>e. []), format_2f = (\<lambda>r. [])\<rparr>
      \<lparr>content_type = None, contents = ''hello''\<rparr>
     = Inl AttributeError \<and>
   analyze_image
      \<lparr>image_open = (\<lambda>b. Inr \<lparr>width = 640, height = 480\<rparr>),
       face_mesh_process = (\<lambda>i. Inr None),
       exn_str = (\<lambda>e. []), format_2f = (\<lambda>r. [])\<rparr>
      \<lparr>content_type = Some ''text/plain'', contents = ''hello''\<rparr>
     = Inl (HTTPException 400 ''File must be an image'')"
  using content_type_gate
      [of "\<lparr>content_type = None, contents = ''hello''\<rparr>"
          "\<lparr>image_open = (\<lambda>b. Inr \<lparr>width = 640, height = 480\<rparr>),
            face_mesh_process = (\<lambda>i. Inr None),
            exn_str = (\<lambda>e. []), format_2f = (\<lambda>r. [])\<rparr>"]
    content_type_gate
      [of "\<lparr>content_type = Some ''text/plain'', contents = ''hello''\<rparr>"
          "\<lparr>image_open = (\<lambda>b. Inr \<lparr>width = 640, height = 480\<rparr>),
            face_mesh_process = (\<lambda>i. Inr None),
            exn_str = (\<lambda>e. []), format_2f = (\<lambda>r. [])\<rparr>"]
  by simp

text \<open>
  Claim C9. When the face mesh returns a face whose landmark list has the nine indices
  read (the largest is 454), the average deviation \<open>a\<close> is at most 1, the unrounded score
  is \<open>1 - a * 0.3\<close> (the \<open>max\<close> with 0 changes nothing) and lies in [0.7, 1], the
  returned score is its rounding and lies in [0.7, 1] too, and the level is one of
  "Divine Symmetry", "Elegant Harmony" and "Refined Balance", never "Natural Allure" or
  "Authentic Beauty".
\<close>

theorem score_at_least_070:
  assumes "face_mesh_process E img = Inr (Some (landmarks # others))" "454 < length landmarks"
  shows "\<exists>ratios a. landmark_ratios img landmarks = Inr ratios \<and>
     avg_deviation (ratio_deviations ratios) = Inr a \<and> 0 \<le> a \<and> a \<le> 1 \<and>
     unrounded_score ratios = Inr (1 - a * (3 / 10)) \<and>
     7 / 10 \<le> 1 - a * (3 / 10) \<and> 1 - a * (3 / 10) \<le> 1 \<and>
     compute_symmetry_score E img = Inr (py_round (1 - a * (3 / 10)) 2) \<and>
     7 / 10 \<le> py_round (1 - a * (3 / 10)) 2 \<and> py_round (1 - a * (3 / 10)) 2 \<le> 1 \<and>
     get_symmetry_level (py_round (1 - a * (3 / 10)) 2)
       \<in> {divine_symmetry, elegant_harmony, refined_balance} \<and>
     get_symmetry_level (py_round (1 - a * (3 / 10)) 2) \<noteq> natural_allure \<and>
     get_symmetry_level (py_round (1 - a * (3 / 10)) 2) \<noteq> authentic_beauty"
proof -
  obtain r0 r1 r2 r3 where lr: "landmark_ratios img landmarks = Inr [r0, r1, r2, r3]"
    using landmark_ratios_ok[OF assms(2)] by blast
  define a where "a = (ratio_deviation r0 + ratio_deviation r1 + ratio_deviation r2 + ratio_deviation r3) / 4"
  have a01: "0 \<le> a" "a \<le> 1"
    using ratio_deviation_bounds[of r0] ratio_deviation_bounds[of r1]
      ratio_deviation_bounds[of r2] ratio_deviation_bounds[of r3]
    by (simp_all add: a_def)
  have av: "avg_deviation (ratio_deviations [r0, r1, r2, r3]) = Inr a"
    by (simp add: ratio_deviations_def avg_deviation4 a_def)
  have sc: "scaled_score a = 1 - a * (3 / 10)" by (rule scaled_score_range(1)[OF a01])
  have u: "unrounded_score [r0, r1, r2, r3] = Inr (1 - a * (3 / 10))"
    by (simp add: unrounded_score_def av sc)
  have rng: "7 / 10 \<le> 1 - a * (3 / 10)" "1 - a * (3 / 10) \<le> 1"
    using scaled_score_range(2,3)[OF a01] by (simp_all only: sc)
  have c: "compute_symmetry_score E img = Inr (py_round (1 - a * (3 / 10)) 2)"
    by (simp add: compute_symmetry_score_def assms(1) lr score_of_ratios_def u)
  have b: "of_int 70 / 100 \<le> 1 - a * (3 / 10)" "1 - a * (3 / 10) \<le> of_int 100 / 100"
    using rng by simp_all
  have r: "7 / 10 \<le> py_round (1 - a * (3 / 10)) 2" "py_round (1 - a * (3 / 10)) 2 \<le> 1"
    using py_round2_ge[OF b(1)] py_round2_le[OF b(2)] by simp_all
  have lv: "get_symmetry_level (py_round (1 - a * (3 / 10)) 2)
       \<in> {divine_symmetry, elegant_harmony, refined_balance}"
    by (rule level_top_three) (use r in simp_all)
  have nl: "get_symmetry_level (py_round (1 - a * (3 / 10)) 2) \<noteq> natural_allure"
    "get_symmetry_level (py_round (1 - a * (3 / 10)) 2) \<noteq> authentic_beauty"
    using lv level_distinct by auto
  show ?thesis
    using lr av a01 u rng c r lv nl by blast
qed

theorem score_at_least_070_witness:
  "\<exists>s. compute_symmetry_score
      \<lparr>image_open = (\<lambda>b. Inr \<lparr>width = 640, height = 480\<rparr>),
       face_mesh_process = (\<lambda>i. Inr (Some [replicate 478 \<lparr>x = 1 / 2, y = 1 / 2\<rparr>])),
       exn_str = (\<lambda>e. []), format_2f = (\<lambda>r. [])\<rparr>
      \<lparr>width = 640, height = 480\<rparr> = Inr s \<and> 7 / 10 \<le> s \<and> s \<le> 1 \<and>
      get_symmetry_level s \<in> {divine_symmetry, elegant_harmony, refined_balance}"
proof -
  have h1: "face_mesh_process
      \<lparr>image_open = (\<lambda>b. Inr \<lparr>width = 640, height = 480\<rparr>),
       face_mesh_process = (\<lambda>i. Inr (Some [replicate 478 \<lparr>x = 1 / 2, y = 1 / 2\<rparr>])),
       exn_str = (\<lambda>e. []), format_2f = (\<lambda>r. [])\<rparr> \<lparr>width = 640, height = 480\<rparr>
      = Inr (Some (replicate 478 \<lparr>x = 1 / 2 :: real, y = 1 / 2 :: real\<rparr> # []))"
    by simp
  have h2: "454 < length (replicate 478 \<lparr>x = 1 / 2 :: real, y = 1 / 2 :: real\<rparr>)" by simp
  show ?thesis using score_at_least_070 [OF h1 h2] by blast
qed

text \<open>
  Claim C10. For every landmark list with the indices read, the face edges are the
  pixel coordinates of landmarks 234 and 454, the same points as the sides of the nose, so
  \<open>face_width\<close> equals \<open>nose_width\<close> and the first ratio is \<open>nose_width / eye_distance\<close>
  (1 when the eye distance is 0).
\<close>

theorem face_width_is_nose_width:
  assumes "454 < length landmarks"
  shows "\<exists>p. extract_points img landmarks = Inr p \<and>
     left_face_edge p = nose_left p \<and> right_face_edge p = nose_right p \<and>
     nose_left p = (x (landmarks ! 234) * real (width img), y (landmarks ! 234) * real (height img)) \<and>
     nose_right p = (x (landmarks ! 454) * real (width img), y (landmarks ! 454) * real (height img)) \<and>
     face_width (key_distances p) = nose_width (key_distances p) \<and>
     guarded_ratio (face_width (key_distances p)) (eye_distance (key_distances p)) =
       guarded_ratio (nose_width (key_distances p)) (eye_distance (key_distances p)) \<and>
     (\<exists>r1 r2 r3. landmark_ratios img landmarks =
        Inr [if eye_distance (key_distances p) \<noteq> 0
             then nose_width (key_distances p) / eye_distance (key_distances p) else 1, r1, r2, r3])"
  by (simp add: extract_points_ok[OF assms] landmark_ratios_def calc_ratios_total key_distances_def)

theorem face_width_is_nose_width_witness:
  "\<exists>p. extract_points \<lparr>width = 640, height = 480\<rparr> (replicate 478 \<lparr>x = 1 / 2, y = 1 / 2\<rparr>) = Inr p \<and>
     face_width (key_distances p) = nose_width (key_distances p)"
proof -
  have h: "454 < length (replicate 478 \<lparr>x = 1 / 2 :: real, y = 1 / 2 :: real\<rparr>)" by simp
  show ?thesis
    using face_width_is_nose_width [OF h, of "\<lparr>width = 640, height = 480\<rparr>"] by blast
qed

end
